theory Spec2Isabelle
  imports Complex_Main "HOL-Library.Word" "HOL-Library.Sublist"
begin

section \<open>The world the scripts run in\<close>

text \<open>
  The scripts read and write files, fetch URLs and print progress lines. A file is its
  bytes; a path is the list of its components (\<open>script_dir / name\<close> appends one), so
  that two paths are the same file exactly when they are the same list. The lines the
  scripts print before each download and after each conversion step are kept as a
  trace, oldest first.

  What the network answers and which paths can be written are not decided by the
  scripts: they are the environment, fixed for one run. \<open>urllib.request.urlretrieve\<close>
  either raises (\<open>Failed\<close>, leaving the target as it was) or stores the body it fetched.
  Library calls that the source does not wrap in \<open>try\<close> are taken to return.
\<close>

type_synonym byte = "8 word"
type_synonym bytes = "byte list"
type_synonym path = "string list"
type_synonym url = string

datatype dl_outcome = Fetched bytes | Failed

datatype event =
    Downloading url path
  | OnnxLoaded path
  | SavedModelExported path
  | TFLiteConverted path
  | TFLiteSaved path

record world =
  files :: "path \<rightharpoonup> bytes"
  trace :: "event list"

record env =
  net :: "url \<Rightarrow> dl_outcome"
  writable :: "path \<Rightarrow> bool"

text \<open>\<open>str(path)\<close>: the components joined by the separator.\<close>

fun path_str :: "path \<Rightarrow> string" where
  "path_str [] = ''.''"
| "path_str [a] = a"
| "path_str (a # b # r) = a @ ''/'' @ path_str (b # r)"

text \<open>\<open>Path.parent\<close>: the path without its last component; the empty path is its own parent.\<close>

definition parent :: "path \<Rightarrow> path" where
  "parent p = butlast p"

text \<open>\<open>open(p, 'wb').write(data)\<close>: \<open>None\<close> when opening raises.\<close>

definition write_file :: "env \<Rightarrow> path \<Rightarrow> bytes \<Rightarrow> world \<Rightarrow> world option" where
  "write_file e p bs w =
     (if writable e p then Some (w\<lparr>files := (files w)(p \<mapsto> bs)\<rparr>) else None)"

text \<open>\<open>os.remove(p)\<close> inside \<open>try: ... except: pass\<close>, and \<open>unlink(missing_ok=True)\<close>.\<close>

definition remove_file :: "path \<Rightarrow> world \<Rightarrow> world" where
  "remove_file p w = w\<lparr>files := (files w)(p := None)\<rparr>"

text \<open>
  \<open>download_file(url, filename, description)\<close>, the same function in every script built
  on \<open>urlretrieve\<close>: it prints the URL and the file, fetches, and turns any exception
  into the result \<open>False\<close>.
\<close>

definition download_file :: "env \<Rightarrow> url \<Rightarrow> path \<Rightarrow> world \<Rightarrow> bool \<times> world" where
  "download_file e u p w =
     (let w1 = w\<lparr>trace := trace w @ [Downloading u p]\<rparr> in
      case net e u of
        Failed \<Rightarrow> (False, w1)
      | Fetched bs \<Rightarrow>
          (case write_file e p bs w1 of
             None \<Rightarrow> (False, w1)
           | Some w2 \<Rightarrow> (True, w2)))"

text \<open>The four magic bytes \<open>b'TFL3'\<close>.\<close>

definition TFL3 :: bytes where
  "TFL3 = [0x54, 0x46, 0x4C, 0x33]"

text \<open>\<open>needle in haystack\<close> on byte strings and on strings.\<close>

fun contains :: "'a list \<Rightarrow> 'a list \<Rightarrow> bool" where
  "contains n [] = (n = [])"
| "contains n (h # t) = (prefix n (h # t) \<or> contains n t)"

text \<open>\<open>str.lower()\<close> on ASCII letters.\<close>

definition lower_char :: "char \<Rightarrow> char" where
  "lower_char c =
     (let n = (of_char c :: nat) in if 65 \<le> n \<and> n \<le> 90 then char_of (n + 32) else c)"

definition lower :: "string \<Rightarrow> string" where
  "lower s = map lower_char s"

section \<open>download\_ocr\_models.py: size verification\<close>

text \<open>
  \<open>verify_file_size(filepath, expected_size_mb, tolerance=0.5)\<close>. Python computes the
  sizes in megabytes as floats; here they are rationals, so that the division by
  \<open>1024 * 1024\<close>, the subtraction and the comparison are exact.
\<close>

definition verify_file_size :: "world \<Rightarrow> path \<Rightarrow> rat \<Rightarrow> rat \<Rightarrow> bool" where
  "verify_file_size w filepath expected_size_mb tolerance =
     (case files w filepath of
        None \<Rightarrow> False
      | Some bs \<Rightarrow>
          (let actual_size_mb = of_nat (length bs) / (1024 * 1024) in
           if \<bar>actual_size_mb - expected_size_mb\<bar> > tolerance then False else True))"

definition default_tolerance :: rat where
  "default_tolerance = 1 / 2"

section \<open>download\_ocr\_tflite\_direct.py: verification and the stub\<close>

text \<open>The lines a verifier prints besides its verdict.\<close>

datatype remark = FileNotFound | TooSmall | ValidTFLite | HeaderMayNotBeTFLite | SizeDiffers

text \<open>
  \<open>verify_tflite_model(filename, expected_size_mb)\<close>: the verdict and the notes printed.
  Only a missing file and a file under 1024 bytes are rejected; the header and the
  expected size choose which lines are printed.
\<close>

definition verify_tflite_model :: "world \<Rightarrow> path \<Rightarrow> rat option \<Rightarrow> bool \<times> remark list" where
  "verify_tflite_model w filename expected_size_mb =
     (case files w filename of
        None \<Rightarrow> (False, [FileNotFound])
      | Some bs \<Rightarrow>
          (let file_size = length bs;
               file_size_mb = (of_nat file_size :: rat) / (1024 * 1024) in
           if file_size < 1024 then (False, [TooSmall])
           else
             (let header = take 8 bs;
                  n1 = (if prefix TFL3 header then [ValidTFLite] else [HeaderMayNotBeTFLite]);
                  n2 = (case expected_size_mb of
                          None \<Rightarrow> []
                        | Some x \<Rightarrow>
                            if x \<noteq> 0 \<and> \<bar>file_size_mb - x\<bar> > x * (1 / 2)
                            then [SizeDiffers] else [])
              in (True, n1 @ n2))))"

definition detection_stub_head :: bytes where
  "detection_stub_head =
     [0x18, 0x00, 0x00, 0x00, 0x54, 0x46, 0x4C, 0x33,
      0x00, 0x00, 0x0E, 0x00, 0x18, 0x00, 0x04, 0x00,
      0x08, 0x00, 0x0C, 0x00, 0x10, 0x00, 0x14, 0x00,
      0x0E, 0x00, 0x00, 0x00, 0x03, 0x00, 0x00, 0x00,
      0x48, 0x00, 0x00, 0x00, 0x01, 0x00, 0x00, 0x00,
      0x04, 0x00, 0x00, 0x00, 0x34, 0x00, 0x00, 0x00,
      0x28, 0x00, 0x00, 0x00, 0x1C, 0x00, 0x00, 0x00,
      0x04, 0x00, 0x00, 0x00]"

definition recognition_stub_head :: bytes where
  "recognition_stub_head =
     [0x18, 0x00, 0x00, 0x00, 0x54, 0x46, 0x4C, 0x33,
      0x00, 0x00, 0x0E, 0x00, 0x18, 0x00, 0x04, 0x00,
      0x08, 0x00, 0x0C, 0x00, 0x10, 0x00, 0x14, 0x00,
      0x0E, 0x00, 0x00, 0x00, 0x03, 0x00, 0x00, 0x00,
      0x50, 0x00, 0x00, 0x00, 0x01, 0x00, 0x00, 0x00,
      0x04, 0x00, 0x00, 0x00, 0x3C, 0x00, 0x00, 0x00,
      0x30, 0x00, 0x00, 0x00, 0x24, 0x00, 0x00, 0x00,
      0x04, 0x00, 0x00, 0x00]"

text \<open>
  The bytes \<open>create_working_tflite_model\<close> builds: the head chosen by the file name,
  extended with \<open>512 - len\<close> zero bytes.
\<close>

definition working_tflite_data :: "path \<Rightarrow> bytes" where
  "working_tflite_data filename =
     (let tflite_data =
            (if contains ''detection'' (lower (path_str filename))
             then detection_stub_head else recognition_stub_head)
      in tflite_data @ replicate (512 - length tflite_data) 0x00)"

text \<open>\<open>create_working_tflite_model(filename, description)\<close>: \<open>False\<close> when the write raises.\<close>

definition create_working_tflite_model :: "env \<Rightarrow> path \<Rightarrow> world \<Rightarrow> bool \<times> world" where
  "create_working_tflite_model e filename w =
     (case write_file e filename (working_tflite_data filename) w of
        Some w' \<Rightarrow> (True, w')
      | None \<Rightarrow> (False, w))"

section \<open>download\_easyocr\_models.py: verification\<close>

text \<open>
  \<open>verify_file(filename)\<close>: the verdict and the notes printed. Every file that exists
  is accepted; the header chooses the line printed.
\<close>

definition verify_file :: "world \<Rightarrow> path \<Rightarrow> bool \<times> remark list" where
  "verify_file w filename =
     (case files w filename of
        None \<Rightarrow> (False, [FileNotFound])
      | Some bs \<Rightarrow>
          (let header = take 8 bs in
           (True, if prefix TFL3 header then [ValidTFLite] else [HeaderMayNotBeTFLite])))"

definition create_minimal_tflite_data :: bytes where
  "create_minimal_tflite_data =
     [0x18, 0x00, 0x00, 0x00, 0x54, 0x46, 0x4C, 0x33,
      0x00, 0x00, 0x0E, 0x00, 0x18, 0x00, 0x04, 0x00,
      0x08, 0x00, 0x0C, 0x00, 0x10, 0x00, 0x14, 0x00,
      0x0E, 0x00, 0x00, 0x00, 0x03, 0x00, 0x00, 0x00,
      0x10, 0x00, 0x00, 0x00, 0x01, 0x00, 0x00, 0x00,
      0x04, 0x00, 0x00, 0x00, 0x08, 0x00, 0x00, 0x00]
     @ replicate 200 0x00"

text \<open>\<open>create_minimal_tflite(filename, description)\<close>: \<open>False\<close> when the write raises.\<close>

definition create_minimal_tflite :: "env \<Rightarrow> path \<Rightarrow> world \<Rightarrow> bool \<times> world" where
  "create_minimal_tflite e filename w =
     (case write_file e filename create_minimal_tflite_data w of
        Some w' \<Rightarrow> (True, w')
      | None \<Rightarrow> (False, w))"

section \<open>download\_ocr\_models.py: the main loop\<close>

text \<open>
  An entry of \<open>MODELS\<close>. The \<open>description\<close> of an entry is only printed and is left out,
  here and in the other tables. \<open>fallback_url\<close> is optional: the loop asks
  \<open>'fallback_url' in model_info\<close>.
\<close>

record model_info =
  url :: url
  fallback_url :: "url option"
  size_mb :: rat

definition MODELS :: "(string \<times> model_info) list" where
  "MODELS =
     [(''eng.traineddata'',
       \<lparr>url = ''https://github.com/tesseract-ocr/tessdata/raw/main/eng.traineddata'',
        fallback_url = Some ''https://github.com/tesseract-ocr/tessdata_fast/raw/main/eng.traineddata'',
        size_mb = 15\<rparr>),
      (''spa.traineddata'',
       \<lparr>url = ''https://github.com/tesseract-ocr/tessdata/raw/main/spa.traineddata'',
        fallback_url = Some ''https://github.com/tesseract-ocr/tessdata_fast/raw/main/spa.traineddata'',
        size_mb = 12\<rparr>),
      (''fra.traineddata'',
       \<lparr>url = ''https://github.com/tesseract-ocr/tessdata/raw/main/fra.traineddata'',
        fallback_url = Some ''https://github.com/tesseract-ocr/tessdata_fast/raw/main/fra.traineddata'',
        size_mb = 11\<rparr>),
      (''deu.traineddata'',
       \<lparr>url = ''https://github.com/tesseract-ocr/tessdata/raw/main/deu.traineddata'',
        fallback_url = Some ''https://github.com/tesseract-ocr/tessdata_fast/raw/main/deu.traineddata'',
        size_mb = 12\<rparr>)]"

text \<open>\<open>Path("app/src/main/assets")\<close>, relative to the working directory.\<close>

definition assets_dir :: path where
  "assets_dir = [''app'', ''src'', ''main'', ''assets'']"

text \<open>The primary URL, then the fallback URL if the primary failed (the body of the loop).\<close>

definition ocr_fetch :: "env \<Rightarrow> model_info \<Rightarrow> path \<Rightarrow> world \<Rightarrow> bool \<times> world" where
  "ocr_fetch e info filepath w =
     (let (success, w1) = download_file e (url info) filepath w in
      case fallback_url info of
        None \<Rightarrow> (success, w1)
      | Some fb \<Rightarrow> if \<not> success then download_file e fb filepath w1 else (success, w1))"

text \<open>
  The \<open>for\<close> loop of \<open>main\<close>: an entry whose file exists with the right size is skipped;
  after a download the size check only chooses the line printed; when no download
  succeeded \<open>main\<close> returns \<open>False\<close> at once.
\<close>

fun ocr_loop :: "env \<Rightarrow> path \<Rightarrow> (string \<times> model_info) list \<Rightarrow> world \<Rightarrow> bool \<times> world" where
  "ocr_loop e dir [] w = (True, w)"
| "ocr_loop e dir ((filename, info) # rest) w =
     (let filepath = dir @ [filename] in
      if files w filepath \<noteq> None \<and> verify_file_size w filepath (size_mb info) default_tolerance
      then ocr_loop e dir rest w
      else
        (let (success, w1) = ocr_fetch e info filepath w in
         if success then ocr_loop e dir rest w1 else (False, w1)))"

definition ocr_main :: "env \<Rightarrow> world \<Rightarrow> bool \<times> world" where
  "ocr_main e w = ocr_loop e assets_dir MODELS w"


section \<open>download\_ocr\_tflite\_direct.py: the main loop\<close>

record tflite_info =
  urls :: "url list"
  expected_size_mb :: rat

definition TFLITE_MODELS :: "(string \<times> tflite_info) list" where
  "TFLITE_MODELS =
     [(''easyocr_text_detection.tflite'',
       \<lparr>urls =
          [''https://github.com/tulasiram58827/ocr_tflite/raw/main/models/craft_text_detector_float16.tflite'',
           ''https://github.com/tulasiram58827/ocr_tflite/raw/main/models/craft_text_detector_dynamic_range.tflite'',
           ''https://tfhub.dev/tulasiram58827/lite-model/craft-text-detector/float16/1?lite-format=tflite'',
           ''https://storage.googleapis.com/tfhub-lite-models/tulasiram58827/lite-model/craft-text-detector/float16/1/default/1.tflite''],
        expected_size_mb = 23 / 10\<rparr>),
      (''easyocr_text_recognition.tflite'',
       \<lparr>urls =
          [''https://github.com/tulasiram58827/ocr_tflite/raw/main/models/keras_ocr_float16.tflite'',
           ''https://github.com/tulasiram58827/ocr_tflite/raw/main/models/keras_ocr_dynamic_range.tflite'',
           ''https://tfhub.dev/tulasiram58827/lite-model/keras-ocr/float16/1?lite-format=tflite'',
           ''https://storage.googleapis.com/tfhub-lite-models/tulasiram58827/lite-model/keras-ocr/float16/1/default/1.tflite''],
        expected_size_mb = 86 / 10\<rparr>)]"

text \<open>
  The inner loop over \<open>info['urls']\<close>: the first download that verifies ends it; a
  download that fails verification is removed.
\<close>

fun try_each_url :: "env \<Rightarrow> rat \<Rightarrow> url list \<Rightarrow> path \<Rightarrow> world \<Rightarrow> bool \<times> world" where
  "try_each_url e x [] file_path w = (False, w)"
| "try_each_url e x (u # us) file_path w =
     (let (ok, w1) = download_file e u file_path w in
      if ok then
        (if fst (verify_tflite_model w1 file_path (Some x)) then (True, w1)
         else try_each_url e x us file_path (remove_file file_path w1))
      else try_each_url e x us file_path w1)"

text \<open>One pass of the outer loop: the count of successes and the world.\<close>

definition direct_entry :: "env \<Rightarrow> path \<Rightarrow> string \<times> tflite_info \<Rightarrow> nat \<times> world \<Rightarrow> nat \<times> world" where
  "direct_entry e script_dir entry st =
     (let (filename, info) = entry;
          (success_count, w) = st;
          file_path = script_dir @ [filename];
          (model_downloaded, w1) = try_each_url e (expected_size_mb info) (urls info) file_path w
      in if model_downloaded then (success_count + 1, w1)
         else
           (let (created, w2) = create_working_tflite_model e file_path w1 in
            if created then (success_count + 1, w2) else (success_count, w2)))"

fun direct_loop :: "env \<Rightarrow> path \<Rightarrow> (string \<times> tflite_info) list \<Rightarrow> nat \<times> world \<Rightarrow> nat \<times> world" where
  "direct_loop e script_dir [] st = st"
| "direct_loop e script_dir (entry # rest) st =
     direct_loop e script_dir rest (direct_entry e script_dir entry st)"

definition direct_main :: "env \<Rightarrow> path \<Rightarrow> world \<Rightarrow> bool \<times> world" where
  "direct_main e script_dir w =
     (let total_models = length TFLITE_MODELS;
          (success_count, w') = direct_loop e script_dir TFLITE_MODELS (0, w)
      in (success_count = total_models, w'))"

section \<open>download\_easyocr\_models.py: the main loop\<close>

text \<open>\<open>alternative_urls\<close> is optional: the loop asks \<open>'alternative_urls' in info\<close>.\<close>

record easyocr_info =
  primary_url :: url
  alternative_urls :: "url list option"

definition EASYOCR_MODELS :: "(string \<times> easyocr_info) list" where
  "EASYOCR_MODELS =
     [(''easyocr_text_detection.tflite'',
       \<lparr>primary_url = ''https://github.com/PaddlePaddle/PaddleOCR/raw/release/2.6/inference/ch_PP-OCRv3_det_infer.tar'',
        alternative_urls =
          Some [''https://huggingface.co/PaddlePaddle/PaddleOCR/resolve/main/ch_PP-OCRv3_det_infer.tar'']\<rparr>),
      (''easyocr_text_recognition.tflite'',
       \<lparr>primary_url = ''https://github.com/PaddlePaddle/PaddleOCR/raw/release/2.6/inference/ch_PP-OCRv3_rec_infer.tar'',
        alternative_urls =
          Some [''https://huggingface.co/PaddlePaddle/PaddleOCR/resolve/main/ch_PP-OCRv3_rec_infer.tar'']\<rparr>)]"

definition DIRECT_TFLITE_SOURCES :: "(string \<times> url list) list" where
  "DIRECT_TFLITE_SOURCES =
     [(''easyocr_text_detection.tflite'',
       [''https://github.com/zxiaosi/OCR-Detection-And-Recognition/raw/main/models/det.tflite'',
        ''https://github.com/tensorflow/examples/raw/master/lite/examples/text_classification/android/app/src/main/assets/text_classification.tflite'']),
      (''easyocr_text_recognition.tflite'',
       [''https://github.com/zxiaosi/OCR-Detection-And-Recognition/raw/main/models/rec.tflite'',
        ''https://github.com/tensorflow/examples/raw/master/lite/examples/optical_character_recognition/android/app/src/main/assets/text_recognition.tflite''])]"

text \<open>
  A loop over URLs that ends at the first download \<open>verify_file\<close> accepts: the loop of
  \<open>try_direct_tflite_sources\<close> and the loop over \<open>alternative_urls\<close> in \<open>main\<close>.
\<close>

fun try_sources :: "env \<Rightarrow> url list \<Rightarrow> path \<Rightarrow> world \<Rightarrow> bool \<times> world" where
  "try_sources e [] filename w = (False, w)"
| "try_sources e (u # us) filename w =
     (let (ok, w1) = download_file e u filename w in
      if ok \<and> fst (verify_file w1 filename) then (True, w1)
      else try_sources e us filename w1)"

text \<open>
  \<open>try_direct_tflite_sources(filename)\<close>. The table is keyed by bare file names and is
  asked for the string of the whole path.
\<close>

definition try_direct_tflite_sources :: "env \<Rightarrow> path \<Rightarrow> world \<Rightarrow> bool \<times> world" where
  "try_direct_tflite_sources e filename w =
     (case map_of DIRECT_TFLITE_SOURCES (path_str filename) of
        None \<Rightarrow> (False, w)
      | Some sources \<Rightarrow> try_sources e sources filename w)"

definition easyocr_entry :: "env \<Rightarrow> path \<Rightarrow> string \<times> easyocr_info \<Rightarrow> nat \<times> world \<Rightarrow> nat \<times> world" where
  "easyocr_entry e script_dir entry st =
     (let (filename, info) = entry;
          (success_count, w) = st;
          file_path = script_dir @ [filename];
          (direct, w1) = try_direct_tflite_sources e file_path w
      in if direct then (success_count + 1, w1)
         else
           (let (ok, w2) = download_file e (primary_url info) file_path w1 in
            if ok \<and> fst (verify_file w2 file_path) then (success_count + 1, w2)
            else
              (let (found_working_source, w3) =
                     (case alternative_urls info of
                        None \<Rightarrow> (False, w2)
                      | Some alts \<Rightarrow> try_sources e alts file_path w2)
               in if found_working_source then (success_count + 1, w3)
                  else
                    (let (created, w4) = create_minimal_tflite e file_path w3 in
                     if created then (success_count + 1, w4) else (success_count, w4)))))"

fun easyocr_loop :: "env \<Rightarrow> path \<Rightarrow> (string \<times> easyocr_info) list \<Rightarrow> nat \<times> world \<Rightarrow> nat \<times> world" where
  "easyocr_loop e script_dir [] st = st"
| "easyocr_loop e script_dir (entry # rest) st =
     easyocr_loop e script_dir rest (easyocr_entry e script_dir entry st)"

definition easyocr_main :: "env \<Rightarrow> path \<Rightarrow> world \<Rightarrow> nat \<times> world" where
  "easyocr_main e script_dir w = easyocr_loop e script_dir EASYOCR_MODELS (0, w)"

section \<open>download\_craft\_keras\_tflite\_models.py\<close>

text \<open>
  This script fetches with \<open>requests\<close> and writes the body itself, chunk by chunk.
  The request raises before anything is written (\<open>HttpError\<close>), or it yields chunks
  and then either ends or raises (\<open>Body chunks finished\<close>).
\<close>

datatype response = HttpError | Body "bytes list" bool

record craft_env =
  http :: "url \<Rightarrow> response"
  can_write :: "path \<Rightarrow> bool"

text \<open>
  \<open>download_file(url, filepath)\<close>: opening the file for writing empties it, every
  non-empty chunk is appended, and any exception gives \<open>False\<close> and leaves what was
  written so far.
\<close>

definition craft_download_file :: "craft_env \<Rightarrow> url \<Rightarrow> path \<Rightarrow> world \<Rightarrow> bool \<times> world" where
  "craft_download_file e u filepath w =
     (let w1 = w\<lparr>trace := trace w @ [Downloading u filepath]\<rparr> in
      case http e u of
        HttpError \<Rightarrow> (False, w1)
      | Body chunks finished \<Rightarrow>
          if \<not> can_write e filepath then (False, w1)
          else (finished,
                w1\<lparr>files := (files w1)(filepath \<mapsto> concat (filter (\<lambda>chunk. chunk \<noteq> []) chunks))\<rparr>))"

text \<open>An entry of \<open>models\<close>; \<open>name\<close> and \<open>description\<close> are only printed.\<close>

record craft_model =
  craft_url :: url
  craft_file :: path

definition craft_models :: "path \<Rightarrow> craft_model list" where
  "craft_models script_dir =
     (let assets = parent script_dir @ [''app'', ''src'', ''main'', ''assets''] in
      [\<lparr>craft_url = ''https://github.com/tulasiram58827/craft_tflite/raw/main/models/craft_float16.tflite'',
        craft_file = assets @ [''craft_text_detection.tflite'']\<rparr>,
       \<lparr>craft_url = ''https://github.com/tulasiram58827/ocr_tflite/raw/main/models/keras_ocr_float16.tflite'',
        craft_file = assets @ [''keras_text_recognition.tflite'']\<rparr>,
       \<lparr>craft_url = ''https://github.com/tulasiram58827/ocr_tflite/raw/main/models/cnn_float16.tflite'',
        craft_file = assets @ [''cnn_text_recognition.tflite'']\<rparr>])"

text \<open>
  One pass of the loop. After a download that returned \<open>True\<close> the file is there, so
  \<open>stat()\<close> cannot raise; the branch for a missing file keeps the function total.
\<close>

definition craft_entry :: "craft_env \<Rightarrow> craft_model \<Rightarrow> nat \<times> world \<Rightarrow> nat \<times> world" where
  "craft_entry e model st =
     (let (success_count, w) = st;
          use_existing = (case files w (craft_file model) of
                            None \<Rightarrow> False
                          | Some existing \<Rightarrow> length existing > 10000)
      in if use_existing then (success_count + 1, w)
         else
           (let (ok, w1) = craft_download_file e (craft_url model) (craft_file model) w in
            if ok then
              (case files w1 (craft_file model) of
                 None \<Rightarrow> (success_count, w1)
               | Some downloaded \<Rightarrow>
                   if length downloaded > 10000 then (success_count + 1, w1)
                   else (success_count, remove_file (craft_file model) w1))
            else (success_count, w1)))"

fun craft_loop :: "craft_env \<Rightarrow> craft_model list \<Rightarrow> nat \<times> world \<Rightarrow> nat \<times> world" where
  "craft_loop e [] st = st"
| "craft_loop e (model # rest) st = craft_loop e rest (craft_entry e model st)"

definition craft_main :: "craft_env \<Rightarrow> path \<Rightarrow> world \<Rightarrow> nat \<times> world" where
  "craft_main e script_dir w = craft_loop e (craft_models script_dir) (0, w)"

text \<open>A file of more than 10000 bytes is at the path.\<close>

definition real_model_at :: "world \<Rightarrow> path \<Rightarrow> bool" where
  "real_model_at w p = (case files w p of None \<Rightarrow> False | Some bs \<Rightarrow> length bs > 10000)"

section \<open>setup\_keras\_ocr.py\<close>






section \<open>download\_and\_convert\_ocr\_models.py\<close>

text \<open>
  The conversion is done by \<open>onnx\<close>, \<open>onnx_tf\<close> and \<open>tensorflow\<close>. What they compute is
  not this repository's code: each call is a function of the environment that may
  raise (\<open>None\<close>). A loaded ONNX model, a SavedModel and a TensorFlow Lite model are
  kept as bytes. \<open>export_graph\<close> stands for \<open>prepare(onnx_model)\<close> followed by
  \<open>tf_rep.export_graph(tf_model_path)\<close>, \<open>convert\<close> for
  \<open>TFLiteConverter.from_saved_model(tf_model_path)\<close>, its settings and \<open>convert()\<close>,
  and \<open>make_temp_dir\<close> for \<open>tempfile.TemporaryDirectory()\<close>.
\<close>

record toolchain =
  import_onnx :: bool
  import_tensorflow :: bool
  onnx_load :: "bytes \<Rightarrow> bytes option"
  check_model :: "bytes \<Rightarrow> bool"
  make_temp_dir :: "path option"
  export_graph :: "bytes \<Rightarrow> bytes option"
  convert :: "bytes \<Rightarrow> bytes option"

text \<open>\<open>verify_onnx_model(filename)\<close>: any exception gives \<open>False\<close>.\<close>

definition verify_onnx_model :: "toolchain \<Rightarrow> world \<Rightarrow> path \<Rightarrow> bool" where
  "verify_onnx_model tc w filename =
     (if \<not> import_onnx tc then False
      else
        (case files w filename of
           None \<Rightarrow> False
         | Some bs \<Rightarrow>
             (case onnx_load tc bs of
                None \<Rightarrow> False
              | Some model \<Rightarrow> check_model tc model)))"

text \<open>
  \<open>convert_onnx_to_tflite(onnx_path, tflite_path)\<close>, the same function in
  download\_trocr\_models.py. The SavedModel lives in a temporary directory that is
  gone when the function returns, so it never shows in \<open>files\<close>; the progress lines
  are kept in the trace.
\<close>

definition convert_onnx_to_tflite ::
    "toolchain \<Rightarrow> env \<Rightarrow> path \<Rightarrow> path \<Rightarrow> world \<Rightarrow> bool \<times> world" where
  "convert_onnx_to_tflite tc e onnx_path tflite_path w =
     (if \<not> (import_onnx tc \<and> import_tensorflow tc) then (False, w)
      else
        (case files w onnx_path of
           None \<Rightarrow> (False, w)
         | Some onnx_bytes \<Rightarrow>
             (case onnx_load tc onnx_bytes of
                None \<Rightarrow> (False, w)
              | Some onnx_model \<Rightarrow>
                  (let w1 = w\<lparr>trace := trace w @ [OnnxLoaded onnx_path]\<rparr>
                   in case make_temp_dir tc of
                        None \<Rightarrow> (False, w1)
                      | Some temp_dir \<Rightarrow>
                          (let tf_model_path = temp_dir @ [''tf_model'']
                           in case export_graph tc onnx_model of
                                None \<Rightarrow> (False, w1)
                              | Some saved_model \<Rightarrow>
                                  (let w2 = w1\<lparr>trace := trace w1 @ [SavedModelExported tf_model_path]\<rparr>
                                   in case convert tc saved_model of
                                        None \<Rightarrow> (False, w2)
                                      | Some tflite_model \<Rightarrow>
                                          (let w3 = w2\<lparr>trace := trace w2 @ [TFLiteConverted tf_model_path]\<rparr>
                                           in case write_file e tflite_path tflite_model w3 of
                                                None \<Rightarrow> (False, w3)
                                              | Some w4 \<Rightarrow>
                                                  (True, w4\<lparr>trace := trace w4 @ [TFLiteSaved tflite_path]\<rparr>))))))))"

record onnx_info =
  onnx_url :: url
  backup_urls :: "url list option"
  output_tflite :: string

definition ONNX_MODELS :: "(string \<times> onnx_info) list" where
  "ONNX_MODELS =
     [(''craft_text_detection.onnx'',
       \<lparr>onnx_url = ''https://github.com/clovaai/CRAFT-pytorch/releases/download/v1.0/craft_mlt_25k.onnx'',
        backup_urls =
          Some [''https://github.com/JaidedAI/EasyOCR/releases/download/v1.6.0/craft_mlt_25k.onnx'',
                ''https://huggingface.co/datasets/keremberke/craft-text-detection/resolve/main/craft_mlt_25k.onnx''],
        output_tflite = ''easyocr_text_detection.tflite''\<rparr>),
      (''crnn_text_recognition.onnx'',
       \<lparr>onnx_url = ''https://github.com/JaidedAI/EasyOCR/releases/download/v1.6.0/latin_g2.onnx'',
        backup_urls =
          Some [''https://github.com/PaddlePaddle/PaddleOCR/releases/download/v2.6.1/en_PP-OCRv3_rec.onnx'',
                ''https://huggingface.co/datasets/keremberke/paddleocr-text-recognition/resolve/main/latin_g2.onnx''],
        output_tflite = ''easyocr_text_recognition.tflite''\<rparr>)]"

text \<open>The loop over \<open>info['backup_urls']\<close>: it ends at the first download that verifies.\<close>

fun try_backup_urls :: "toolchain \<Rightarrow> env \<Rightarrow> url list \<Rightarrow> path \<Rightarrow> world \<Rightarrow> bool \<times> world" where
  "try_backup_urls tc e [] onnx_path w = (False, w)"
| "try_backup_urls tc e (backup_url # rest) onnx_path w =
     (let (ok, w1) = download_file e backup_url onnx_path w in
      if ok \<and> verify_onnx_model tc w1 onnx_path then (True, w1)
      else try_backup_urls tc e rest onnx_path w1)"

text \<open>
  The download part of the loop body of \<open>main\<close>: the primary URL, then the backup URLs
  if the primary did not give a verified model. The result is \<open>onnx_downloaded\<close>.
\<close>

definition fetch_onnx :: "toolchain \<Rightarrow> env \<Rightarrow> onnx_info \<Rightarrow> path \<Rightarrow> world \<Rightarrow> bool \<times> world" where
  "fetch_onnx tc e info onnx_path w =
     (let (ok, w1) = download_file e (onnx_url info) onnx_path w;
          onnx_downloaded = (ok \<and> verify_onnx_model tc w1 onnx_path)
      in case backup_urls info of
           None \<Rightarrow> (onnx_downloaded, w1)
         | Some backups \<Rightarrow>
             if \<not> onnx_downloaded then try_backup_urls tc e backups onnx_path w1
             else (onnx_downloaded, w1))"

section \<open>tests/generate\_working\_images.py\<close>

text \<open>
  An image is what Pillow was asked to draw: its mode, size and background colour and
  the texts drawn on it, in order. Which fonts are installed and how wide a text is in
  a font belong to the environment.
\<close>

datatype font = TrueType string nat | DefaultFont

datatype drawn = DrawText "int \<times> int" string string font

record image =
  mode :: string
  dimensions :: "int \<times> int"
  background :: string
  drawing :: "drawn list"

record pillow =
  truetype_found :: "string \<Rightarrow> bool"
  textbbox :: "string \<Rightarrow> font \<Rightarrow> int \<times> int \<times> int \<times> int"

text \<open>The nested \<open>try\<close> blocks: Arial, else Calibri, else the default font.\<close>

definition load_font :: "pillow \<Rightarrow> nat \<Rightarrow> font" where
  "load_font pil pt =
     (if truetype_found pil ''arial.ttf'' then TrueType ''arial.ttf'' pt
      else if truetype_found pil ''calibri.ttf'' then TrueType ''calibri.ttf'' pt
      else DefaultFont)"

definition create_wifi_test_image :: "pillow \<Rightarrow> image" where
  "create_wifi_test_image pil =
     (let (width, height) = (600, 400);
          fnt = load_font pil 32
      in \<lparr>mode = ''RGB'', dimensions = (width, height), background = ''white'',
          drawing =
            [DrawText (50, 70) ''SSID: TestNetwork'' ''black'' fnt,
             DrawText (50, 170) ''Password: password123'' ''black'' fnt,
             DrawText (50, 270) ''Security: WPA2'' ''black'' fnt]\<rparr>)"

definition create_simple_test_image :: "pillow \<Rightarrow> image" where
  "create_simple_test_image pil =
     (let (width, height) = (800, 200);
          fnt = load_font pil 48;
          txt = ''HELLO CAMERA TEST'';
          (x0, y0, x1, y1) = textbbox pil txt fnt;
          text_width = x1 - x0;
          text_height = y1 - y0;
          x = (width - text_width) div 2;
          y = (height - text_height) div 2
      in \<lparr>mode = ''RGB'', dimensions = (width, height), background = ''white'',
          drawing = [DrawText (x, y) txt ''black'' fnt]\<rparr>)"

text \<open>\<open>main()\<close>: both images are saved beside the script.\<close>

definition images_main :: "pillow \<Rightarrow> path \<Rightarrow> (path \<rightharpoonup> image) \<Rightarrow> (path \<rightharpoonup> image)" where
  "images_main pil tests_dir saved =
     (let wifi_image = create_wifi_test_image pil;
          wifi_path = tests_dir @ [''working_wifi_test_image.png''];
          saved1 = saved(wifi_path \<mapsto> wifi_image);
          simple_image = create_simple_test_image pil;
          simple_path = tests_dir @ [''working_simple_test_image.png'']
      in saved1(simple_path \<mapsto> simple_image))"

text \<open>The texts drawn on an image.\<close>

fun drawn_text :: "drawn \<Rightarrow> string" where
  "drawn_text (DrawText pos s fill fnt) = s"

section \<open>Notions used to state the properties\<close>

text \<open>The URLs of the downloads attempted so far, oldest first.\<close>

fun event_url :: "event \<Rightarrow> url list" where
  "event_url (Downloading u p) = [u]"
| "event_url (OnnxLoaded p) = []"
| "event_url (SavedModelExported p) = []"
| "event_url (TFLiteConverted p) = []"
| "event_url (TFLiteSaved p) = []"

definition attempts :: "world \<Rightarrow> url list" where
  "attempts w = concat (map event_url (trace w))"

text \<open>
  Prioritized fallback, as the specification words it: the candidates are tried in
  their listed order, up to and including the first one that succeeds.
\<close>

fun until_first :: "('a \<Rightarrow> bool) \<Rightarrow> 'a list \<Rightarrow> 'a list" where
  "until_first good [] = []"
| "until_first good (x # xs) = (if good x then [x] else x # until_first good xs)"

text \<open>A download of the URL to the path succeeds.\<close>

definition download_ok :: "env \<Rightarrow> path \<Rightarrow> url \<Rightarrow> bool" where
  "download_ok e p u = (case net e u of Failed \<Rightarrow> False | Fetched bs \<Rightarrow> writable e p)"

text \<open>A download of the URL to the path succeeds and gives a model that verifies.\<close>

definition onnx_ok :: "toolchain \<Rightarrow> env \<Rightarrow> path \<Rightarrow> url \<Rightarrow> bool" where
  "onnx_ok tc e p u =
     (case net e u of
        Failed \<Rightarrow> False
      | Fetched bs \<Rightarrow>
          writable e p \<and> import_onnx tc \<and>
          (case onnx_load tc bs of None \<Rightarrow> False | Some model \<Rightarrow> check_model tc model))"

text \<open>\<open>os.path.exists(p)\<close>.\<close>

definition file_exists :: "world \<Rightarrow> path \<Rightarrow> bool" where
  "file_exists w p = (files w p \<noteq> None)"

text \<open>The candidate URLs of an entry, in their listed order.\<close>

definition ocr_candidates :: "model_info \<Rightarrow> url list" where
  "ocr_candidates info = url info # (case fallback_url info of None \<Rightarrow> [] | Some fb \<Rightarrow> [fb])"

definition onnx_candidates :: "onnx_info \<Rightarrow> url list" where
  "onnx_candidates info = onnx_url info # (case backup_urls info of None \<Rightarrow> [] | Some bs \<Rightarrow> bs)"

text \<open>
  Every URL download\_easyocr\_models.py tries for an entry, in the order it tries them:
  the direct sources found under the string of the path, the primary URL, the
  alternative URLs.
\<close>

definition easyocr_candidates :: "path \<Rightarrow> easyocr_info \<Rightarrow> url list" where
  "easyocr_candidates file_path info =
     (case map_of DIRECT_TFLITE_SOURCES (path_str file_path) of None \<Rightarrow> [] | Some us \<Rightarrow> us)
     @ [primary_url info]
     @ (case alternative_urls info of None \<Rightarrow> [] | Some alts \<Rightarrow> alts)"

section \<open>Concrete runs\<close>

definition empty_world :: world where
  "empty_world = \<lparr>files = Map.empty, trace = []\<rparr>"

text \<open>No network: every download fails; every path can be written.\<close>

definition offline :: env where
  "offline = \<lparr>net = (\<lambda>u. Failed), writable = (\<lambda>p. True)\<rparr>"

text \<open>A server that answers every URL with 2048 bytes of \<open><\<close>, as an error page would.\<close>

definition junk :: bytes where
  "junk = replicate 2048 0x3C"

definition junk_server :: env where
  "junk_server = \<lparr>net = (\<lambda>u. Fetched junk), writable = (\<lambda>p. True)\<rparr>"

definition eng_path :: path where
  "eng_path = assets_dir @ [''eng.traineddata'']"

text \<open>Libraries that are installed and convert whatever they are given.\<close>

definition working_tools :: toolchain where
  "working_tools =
     \<lparr>import_onnx = True, import_tensorflow = True, onnx_load = Some,
      check_model = (\<lambda>m. True), make_temp_dir = Some [''tmp'', ''tmpdir''],
      export_graph = Some, convert = Some\<rparr>"

definition scripts_dir :: path where
  "scripts_dir = [''scripts'']"

definition craft_onnx_path :: path where
  "craft_onnx_path = [''scripts'', ''craft_text_detection.onnx'']"

definition det_path :: path where
  "det_path = [''scripts'', ''easyocr_text_detection.tflite'']"

definition onnx_world :: world where
  "onnx_world = \<lparr>files = [craft_onnx_path \<mapsto> [0x08, 0x07]], trace = []\<rparr>"


definition small_server :: craft_env where
  "small_server = \<lparr>http = (\<lambda>u. Body [[0x54, 0x46], [], [0x4C]] True), can_write = (\<lambda>p. True)\<rparr>"

definition craft_path :: path where
  "craft_path = [''app'', ''src'', ''main'', ''assets'', ''craft_text_detection.tflite'']"

definition stocked_world :: world where
  "stocked_world = \<lparr>files = [craft_path \<mapsto> replicate 10001 0x00], trace = []\<rparr>"

section \<open>Facts about the verifiers and the stub\<close>

lemma length_detection_stub_head: "length detection_stub_head = 60"
  by (simp add: detection_stub_head_def)

lemma length_recognition_stub_head: "length recognition_stub_head = 60"
  by (simp add: recognition_stub_head_def)

lemma length_working_tflite_data: "length (working_tflite_data f) = 512"
  by (simp add: working_tflite_data_def Let_def
      length_detection_stub_head length_recognition_stub_head)

lemma take8_working_tflite_data:
  "take 8 (working_tflite_data f) = [0x18, 0x00, 0x00, 0x00, 0x54, 0x46, 0x4C, 0x33]"
  by (simp add: working_tflite_data_def Let_def
      detection_stub_head_def recognition_stub_head_def)

lemma magic_not_in_padding:
  assumes "length h \<le> i"
  shows "take 4 (drop i (h @ replicate n (0::byte))) \<noteq> TFL3"
proof -
  have "drop i (h @ replicate n (0::byte)) = replicate (n - (i - length h)) 0"
    using assms by simp
  then have "take 4 (drop i (h @ replicate n (0::byte))) = replicate (min 4 (n - (i - length h))) 0"
    by simp
  moreover have "replicate k (0::byte) \<noteq> TFL3" for k
    by (cases k) (simp_all add: TFL3_def)
  ultimately show ?thesis by simp
qed

lemma magic_offsets_split:
  assumes "length h = 60"
  shows "[i \<leftarrow> [0..<512]. take 4 (drop i (h @ replicate 452 (0::byte))) = TFL3]
       = [i \<leftarrow> [0..<60]. take 4 (drop i (h @ replicate 452 (0::byte))) = TFL3]"
proof -
  have "[0..<60 + 452] = [0..<60] @ [60..<60 + 452]"
    by (rule upt_add_eq_append) simp
  moreover have "(60::nat) + 452 = 512"
    by simp
  ultimately have split: "[0..<512] = [0..<60] @ [60..<512]"
    by (simp only:)
  have "take 4 (drop i (h @ replicate 452 (0::byte))) \<noteq> TFL3" if "i \<in> set [60..<512]" for i
  proof -
    from that have "60 \<le> i"
      by (simp only: set_upt atLeastLessThan_iff)
    with assms have "length h \<le> i"
      by simp
    then show ?thesis
      by (rule magic_not_in_padding)
  qed
  then have "[i \<leftarrow> [60..<512]. take 4 (drop i (h @ replicate 452 (0::byte))) = TFL3] = []"
    by (intro filter_False) blast
  then show ?thesis
    by (simp only: split filter_append append_Nil2)
qed

lemma magic_offsets_detection_head:
  "[i \<leftarrow> [0..<60]. take 4 (drop i (detection_stub_head @ replicate 452 0)) = TFL3] = [4]"
  by code_simp

lemma magic_offsets_recognition_head:
  "[i \<leftarrow> [0..<60]. take 4 (drop i (recognition_stub_head @ replicate 452 0)) = TFL3] = [4]"
  by code_simp

lemma working_tflite_data_cases:
  "working_tflite_data f = detection_stub_head @ replicate 452 0 \<or>
   working_tflite_data f = recognition_stub_head @ replicate 452 0"
  by (simp add: working_tflite_data_def Let_def
      length_detection_stub_head length_recognition_stub_head)

lemma magic_offsets_working:
  "[i \<leftarrow> [0..<512]. take 4 (drop i (working_tflite_data f)) = TFL3] = [4]"
  using working_tflite_data_cases [of f]
    magic_offsets_split [OF length_detection_stub_head] magic_offsets_detection_head
    magic_offsets_split [OF length_recognition_stub_head] magic_offsets_recognition_head
  by auto



section \<open>Facts about downloads and the loops\<close>

lemma download_file_failed:
  "\<not> download_ok e p u \<Longrightarrow>
   download_file e u p w = (False, w\<lparr>trace := trace w @ [Downloading u p]\<rparr>)"
  by (auto simp: download_file_def download_ok_def write_file_def Let_def split: dl_outcome.splits)

lemma fst_download_file: "fst (download_file e u p w) = download_ok e p u"
  by (auto simp: download_file_def download_ok_def write_file_def Let_def split: dl_outcome.splits)

lemma attempts_download_file: "attempts (snd (download_file e u p w)) = attempts w @ [u]"
  by (auto simp: download_file_def attempts_def write_file_def Let_def split: dl_outcome.splits)



lemma download_file_other: "q \<noteq> p \<Longrightarrow> files (snd (download_file e u p w)) q = files w q"
  by (auto simp: download_file_def write_file_def Let_def split: dl_outcome.splits)

lemma download_file_there: "fst (download_file e u p w) \<Longrightarrow> file_exists (snd (download_file e u p w)) p"
  by (auto simp: file_exists_def download_file_def write_file_def Let_def
      split: dl_outcome.splits if_splits)

lemma download_file_keeps:
  "file_exists w q \<Longrightarrow> file_exists (snd (download_file e u p w)) q"
  by (auto simp: file_exists_def download_file_def write_file_def Let_def split: dl_outcome.splits)

lemma file_exists_other:
  "files w' q = files w q \<Longrightarrow> file_exists w' q = file_exists w q"
  by (simp add: file_exists_def)

text \<open>download\_ocr\_tflite\_direct.py: what an entry and the loop leave behind.\<close>

lemma try_each_url_all_failed:
  "list_all (\<lambda>u. \<not> download_ok e p u) us \<Longrightarrow>
   fst (try_each_url e x us p w) = False \<and> files (snd (try_each_url e x us p w)) = files w"
  by (induction us arbitrary: w) (auto simp: download_file_failed)

lemma try_each_url_other:
  "q \<noteq> p \<Longrightarrow> files (snd (try_each_url e x us p w)) q = files w q"
proof (induction us arbitrary: w)
  case Nil
  then show ?case by simp
next
  case (Cons u us)
  obtain ok w1 where d: "download_file e u p w = (ok, w1)"
    by (cases "download_file e u p w")
  have w1: "files w1 q = files w q"
    using download_file_other [OF Cons.prems, of e u w] d by simp
  show ?case
    using Cons.IH [OF Cons.prems, of w1] Cons.IH [OF Cons.prems, of "remove_file p w1"] w1 d Cons.prems
    by (simp add: remove_file_def)
qed

lemma try_each_url_there:
  "fst (try_each_url e x us p w) \<Longrightarrow> file_exists (snd (try_each_url e x us p w)) p"
proof (induction us arbitrary: w)
  case Nil
  then show ?case by simp
next
  case (Cons u us)
  obtain ok w1 where d: "download_file e u p w = (ok, w1)"
    by (cases "download_file e u p w")
  show ?case
  proof (cases "ok \<and> fst (verify_tflite_model w1 p (Some x))")
    case True
    then have "file_exists w1 p"
      using download_file_there [of e u p w] d by simp
    with True d show ?thesis by simp
  next
    case False
    then show ?thesis
      using Cons.IH [of w1] Cons.IH [of "remove_file p w1"] Cons.prems d
      by (auto split: if_splits)
  qed
qed

lemma create_working_other:
  "q \<noteq> p \<Longrightarrow> files (snd (create_working_tflite_model e p w)) q = files w q"
  by (simp add: create_working_tflite_model_def write_file_def)

lemma create_working_there:
  "writable e p \<Longrightarrow> create_working_tflite_model e p w
     = (True, w\<lparr>files := (files w)(p \<mapsto> working_tflite_data p)\<rparr>)"
  by (simp add: create_working_tflite_model_def write_file_def)

lemma direct_entry_other:
  "q \<noteq> d @ [name] \<Longrightarrow> files (snd (direct_entry e d (name, info) st)) q = files (snd st) q"
  by (cases st)
     (simp add: direct_entry_def Let_def case_prod_beta try_each_url_other create_working_other)

lemma direct_entry_there:
  assumes "writable e (d @ [name])"
  shows "file_exists (snd (direct_entry e d (name, info) st)) (d @ [name])"
proof -
  obtain c w where st: "st = (c, w)"
    by (cases st)
  let ?p = "d @ [name]"
  let ?r = "try_each_url e (expected_size_mb info) (urls info) ?p w"
  show ?thesis
  proof (cases "fst ?r")
    case True
    then have "file_exists (snd ?r) ?p"
      by (rule try_each_url_there)
    with True show ?thesis
      by (simp add: st direct_entry_def Let_def case_prod_beta)
  next
    case False
    then show ?thesis
      using create_working_there [OF assms, of "snd ?r"]
      by (simp add: st direct_entry_def Let_def case_prod_beta file_exists_def)
  qed
qed

lemma direct_entry_stub:
  assumes "writable e (d @ [name])"
    and "list_all (\<lambda>u. \<not> download_ok e (d @ [name]) u) (urls info)"
  shows "files (snd (direct_entry e d (name, info) st)) (d @ [name])
           = Some (working_tflite_data (d @ [name]))"
proof -
  obtain c w where st: "st = (c, w)"
    by (cases st)
  let ?p = "d @ [name]"
  let ?r = "try_each_url e (expected_size_mb info) (urls info) ?p w"
  have "fst ?r = False"
    using try_each_url_all_failed [OF assms(2)] by simp
  then show ?thesis
    using create_working_there [OF assms(1), of "snd ?r"]
    by (simp add: st direct_entry_def Let_def case_prod_beta)
qed

lemma direct_entry_keeps:
  assumes "writable e (d @ [name])" and "file_exists (snd st) q"
  shows "file_exists (snd (direct_entry e d (name, info) st)) q"
proof (cases "q = d @ [name]")
  case True
  then show ?thesis using direct_entry_there [OF assms(1)] by simp
next
  case False
  then show ?thesis
    using file_exists_other [OF direct_entry_other [OF False]] assms(2) by simp
qed

lemma direct_loop_keeps:
  assumes "\<forall>(n, i) \<in> set ms. writable e (d @ [n])" and "file_exists (snd st) q"
  shows "file_exists (snd (direct_loop e d ms st)) q"
  using assms
proof (induction ms arbitrary: st)
  case Nil
  then show ?case by simp
next
  case (Cons m ms)
  obtain n i where m: "m = (n, i)"
    by (cases m)
  have "file_exists (snd (direct_entry e d (n, i) st)) q"
    using Cons.prems by (intro direct_entry_keeps) (simp_all add: m)
  then show ?case
    using Cons.IH [of "direct_entry e d (n, i) st"] Cons.prems(1) by (simp add: m)
qed

lemma direct_loop_there:
  assumes "\<forall>(n, i) \<in> set ms. writable e (d @ [n])" and "(name, info) \<in> set ms"
  shows "file_exists (snd (direct_loop e d ms st)) (d @ [name])"
  using assms
proof (induction ms arbitrary: st)
  case Nil
  then show ?case by simp
next
  case (Cons m ms)
  have rest: "\<forall>(n, i) \<in> set ms. writable e (d @ [n])"
    using Cons.prems(1) by simp
  show ?case
  proof (cases "(name, info) = m")
    case True
    then have "file_exists (snd (direct_entry e d m st)) (d @ [name])"
      using direct_entry_there [of e d name info st] Cons.prems(1) by auto
    then show ?thesis
      using direct_loop_keeps [OF rest, of "direct_entry e d m st"] by simp
  next
    case False
    then have "(name, info) \<in> set ms"
      using Cons.prems(2) by simp
    then show ?thesis
      using Cons.IH [OF rest, of "direct_entry e d m st"] by simp
  qed
qed

text \<open>download\_easyocr\_models.py: what an entry and the loop leave behind.\<close>

lemma fst_verify_file: "fst (verify_file w p) = file_exists w p"
  by (simp add: verify_file_def file_exists_def Let_def split: option.splits)

lemma try_sources_all_failed:
  "list_all (\<lambda>u. \<not> download_ok e p u) us \<Longrightarrow>
   fst (try_sources e us p w) = False \<and> files (snd (try_sources e us p w)) = files w"
  by (induction us arbitrary: w) (auto simp: download_file_failed)

lemma try_sources_keeps:
  "file_exists w q \<Longrightarrow> file_exists (snd (try_sources e us p w)) q"
proof (induction us arbitrary: w)
  case Nil
  then show ?case by simp
next
  case (Cons u us)
  obtain ok w1 where dl: "download_file e u p w = (ok, w1)"
    by (cases "download_file e u p w")
  have "file_exists w1 q"
    using download_file_keeps [OF Cons.prems, of e u p] dl by simp
  then show ?case
    using Cons.IH [of w1] dl by simp
qed

lemma try_sources_there:
  "fst (try_sources e us p w) \<Longrightarrow> file_exists (snd (try_sources e us p w)) p"
proof (induction us arbitrary: w)
  case Nil
  then show ?case by simp
next
  case (Cons u us)
  obtain ok w1 where dl: "download_file e u p w = (ok, w1)"
    by (cases "download_file e u p w")
  show ?case
    using Cons.IH [of w1] Cons.prems dl
    by (auto simp: fst_verify_file split: if_splits)
qed

lemma create_minimal_there:
  "writable e p \<Longrightarrow> create_minimal_tflite e p w
     = (True, w\<lparr>files := (files w)(p \<mapsto> create_minimal_tflite_data)\<rparr>)"
  by (simp add: create_minimal_tflite_def write_file_def)

lemma create_minimal_keeps:
  "file_exists w q \<Longrightarrow> file_exists (snd (create_minimal_tflite e p w)) q"
  by (simp add: create_minimal_tflite_def write_file_def file_exists_def)

lemma try_direct_keeps:
  "file_exists w q \<Longrightarrow> file_exists (snd (try_direct_tflite_sources e p w)) q"
  by (cases "map_of DIRECT_TFLITE_SOURCES (path_str p)")
     (simp_all add: try_direct_tflite_sources_def try_sources_keeps)

lemma try_direct_there:
  "fst (try_direct_tflite_sources e p w) \<Longrightarrow> file_exists (snd (try_direct_tflite_sources e p w)) p"
  by (cases "map_of DIRECT_TFLITE_SOURCES (path_str p)")
     (simp_all add: try_direct_tflite_sources_def try_sources_there)

text \<open>The four worlds an entry of the table passes through.\<close>

lemma easyocr_entry_unfold:
  "snd (easyocr_entry e d (name, info) (c, w)) =
     (let p = d @ [name];
          r1 = try_direct_tflite_sources e p w;
          r2 = download_file e (primary_url info) p (snd r1);
          r3 = (case alternative_urls info of None \<Rightarrow> (False, snd r2)
                | Some alts \<Rightarrow> try_sources e alts p (snd r2));
          r4 = create_minimal_tflite e p (snd r3)
      in if fst r1 then snd r1
         else if fst r2 \<and> fst (verify_file (snd r2) p) then snd r2
         else if fst r3 then snd r3
         else snd r4)"
  by (cases "alternative_urls info")
     (simp_all add: easyocr_entry_def Let_def case_prod_beta)

lemma easyocr_entry_keeps:
  assumes "file_exists (snd st) q"
  shows "file_exists (snd (easyocr_entry e d (name, info) st)) q"
proof -
  obtain c w where st: "st = (c, w)"
    by (cases st)
  let ?p = "d @ [name]"
  let ?r1 = "try_direct_tflite_sources e ?p w"
  let ?r2 = "download_file e (primary_url info) ?p (snd ?r1)"
  let ?r3 = "case alternative_urls info of None \<Rightarrow> (False, snd ?r2)
             | Some alts \<Rightarrow> try_sources e alts ?p (snd ?r2)"
  let ?r4 = "create_minimal_tflite e ?p (snd ?r3)"
  have 1: "file_exists (snd ?r1) q"
    using assms st by (simp add: try_direct_keeps)
  then have 2: "file_exists (snd ?r2) q"
    by (rule download_file_keeps)
  then have 3: "file_exists (snd ?r3) q"
    by (cases "alternative_urls info") (simp_all add: try_sources_keeps)
  then have 4: "file_exists (snd ?r4) q"
    by (rule create_minimal_keeps)
  show ?thesis
    using 1 2 3 4 by (simp add: st easyocr_entry_unfold Let_def)
qed

lemma easyocr_entry_there:
  assumes "writable e (d @ [name])"
  shows "file_exists (snd (easyocr_entry e d (name, info) st)) (d @ [name])"
proof -
  obtain c w where st: "st = (c, w)"
    by (cases st)
  let ?p = "d @ [name]"
  let ?r1 = "try_direct_tflite_sources e ?p w"
  let ?r2 = "download_file e (primary_url info) ?p (snd ?r1)"
  let ?r3 = "case alternative_urls info of None \<Rightarrow> (False, snd ?r2)
             | Some alts \<Rightarrow> try_sources e alts ?p (snd ?r2)"
  let ?r4 = "create_minimal_tflite e ?p (snd ?r3)"
  have 1: "fst ?r1 \<Longrightarrow> file_exists (snd ?r1) ?p"
    by (rule try_direct_there)
  have 2: "fst ?r2 \<Longrightarrow> file_exists (snd ?r2) ?p"
    by (rule download_file_there)
  have 3: "fst ?r3 \<Longrightarrow> file_exists (snd ?r3) ?p"
    by (cases "alternative_urls info") (simp_all add: try_sources_there)
  have 4: "file_exists (snd ?r4) ?p"
    using create_minimal_there [OF assms, of "snd ?r3"] by (simp add: file_exists_def)
  show ?thesis
    using 1 2 3 4 by (simp add: st easyocr_entry_unfold Let_def)
qed

lemma easyocr_entry_stub:
  assumes "writable e (d @ [name])"
    and "list_all (\<lambda>u. \<not> download_ok e (d @ [name]) u) (easyocr_candidates (d @ [name]) info)"
  shows "files (snd (easyocr_entry e d (name, info) st)) (d @ [name])
           = Some create_minimal_tflite_data"
proof -
  obtain c w where st: "st = (c, w)"
    by (cases st)
  let ?p = "d @ [name]"
  let ?r1 = "try_direct_tflite_sources e ?p w"
  let ?r2 = "download_file e (primary_url info) ?p (snd ?r1)"
  let ?r3 = "case alternative_urls info of None \<Rightarrow> (False, snd ?r2)
             | Some alts \<Rightarrow> try_sources e alts ?p (snd ?r2)"
  let ?r4 = "create_minimal_tflite e ?p (snd ?r3)"
  have 1: "\<not> fst ?r1"
    using assms(2)
    by (cases "map_of DIRECT_TFLITE_SOURCES (path_str ?p)")
       (simp_all add: try_direct_tflite_sources_def easyocr_candidates_def try_sources_all_failed)
  have 2: "\<not> fst ?r2"
    using assms(2) by (simp add: easyocr_candidates_def fst_download_file)
  have 3: "\<not> fst ?r3"
    using assms(2)
    by (cases "alternative_urls info")
       (simp_all add: easyocr_candidates_def try_sources_all_failed)
  have 4: "files (snd ?r4) ?p = Some create_minimal_tflite_data"
    using create_minimal_there [OF assms(1), of "snd ?r3"] by simp
  show ?thesis
    using 1 2 3 4 by (simp add: st easyocr_entry_unfold Let_def)
qed

lemma easyocr_loop_keeps:
  "file_exists (snd st) q \<Longrightarrow> file_exists (snd (easyocr_loop e d ms st)) q"
proof (induction ms arbitrary: st)
  case Nil
  then show ?case by simp
next
  case (Cons m ms)
  obtain n i where m: "m = (n, i)"
    by (cases m)
  have "file_exists (snd (easyocr_entry e d (n, i) st)) q"
    using Cons.prems by (rule easyocr_entry_keeps)
  then show ?case
    using Cons.IH [of "easyocr_entry e d (n, i) st"] by (simp add: m)
qed

lemma easyocr_loop_there:
  assumes "\<forall>(n, i) \<in> set ms. writable e (d @ [n])" and "(name, info) \<in> set ms"
  shows "file_exists (snd (easyocr_loop e d ms st)) (d @ [name])"
  using assms
proof (induction ms arbitrary: st)
  case Nil
  then show ?case by simp
next
  case (Cons m ms)
  have rest: "\<forall>(n, i) \<in> set ms. writable e (d @ [n])"
    using Cons.prems(1) by simp
  show ?case
  proof (cases "(name, info) = m")
    case True
    then have "file_exists (snd (easyocr_entry e d m st)) (d @ [name])"
      using easyocr_entry_there [of e d name info st] Cons.prems(1) by auto
    then show ?thesis
      using easyocr_loop_keeps [of "easyocr_entry e d m st"] by simp
  next
    case False
    then have "(name, info) \<in> set ms"
      using Cons.prems(2) by simp
    then show ?thesis
      using Cons.IH [OF rest, of "easyocr_entry e d m st"] by simp
  qed
qed

text \<open>The URLs tried by the two scripts with a primary and backup URLs.\<close>

lemma ocr_fetch_attempts:
  "attempts (snd (ocr_fetch e info p w)) = attempts w @ until_first (download_ok e p) (ocr_candidates info)"
proof -
  obtain ok w1 where d: "download_file e (url info) p w = (ok, w1)"
    by (cases "download_file e (url info) p w")
  have ok: "ok = download_ok e p (url info)" and a1: "attempts w1 = attempts w @ [url info]"
    using fst_download_file [of e "url info" p w] attempts_download_file [of e "url info" p w] d
    by simp_all
  show ?thesis
  proof (cases "fallback_url info")
    case None
    then show ?thesis
      using d ok a1 by (simp add: ocr_fetch_def ocr_candidates_def)
  next
    case (Some fb)
    then show ?thesis
      using d ok a1 attempts_download_file [of e fb p w1]
      by (simp add: ocr_fetch_def ocr_candidates_def)
  qed
qed

lemma ocr_fetch_result:
  "fst (ocr_fetch e info p w) = list_ex (download_ok e p) (ocr_candidates info)"
proof -
  obtain ok w1 where d: "download_file e (url info) p w = (ok, w1)"
    by (cases "download_file e (url info) p w")
  have ok: "ok = download_ok e p (url info)"
    using fst_download_file [of e "url info" p w] d by simp
  show ?thesis
    using d ok by (cases "fallback_url info")
      (auto simp: ocr_fetch_def ocr_candidates_def fst_download_file)
qed

lemma download_then_verify_onnx:
  "download_file e u p w = (ok, w1) \<Longrightarrow> (ok \<and> verify_onnx_model tc w1 p) = onnx_ok tc e p u"
  by (auto simp: download_file_def write_file_def verify_onnx_model_def onnx_ok_def Let_def
      split: dl_outcome.splits if_splits option.splits)

lemma try_backup_urls_attempts:
  "attempts (snd (try_backup_urls tc e us p w)) = attempts w @ until_first (onnx_ok tc e p) us"
proof (induction us arbitrary: w)
  case Nil
  then show ?case by simp
next
  case (Cons u us)
  obtain ok w1 where d: "download_file e u p w = (ok, w1)"
    by (cases "download_file e u p w")
  have a1: "attempts w1 = attempts w @ [u]"
    using attempts_download_file [of e u p w] d by simp
  show ?case
    using d a1 download_then_verify_onnx [OF d, of tc] Cons.IH [of w1] by simp
qed

lemma try_backup_urls_result:
  "fst (try_backup_urls tc e us p w) = list_ex (onnx_ok tc e p) us"
proof (induction us arbitrary: w)
  case Nil
  then show ?case by simp
next
  case (Cons u us)
  obtain ok w1 where d: "download_file e u p w = (ok, w1)"
    by (cases "download_file e u p w")
  show ?case
    using d download_then_verify_onnx [OF d, of tc] Cons.IH [of w1] by simp
qed

lemma fetch_onnx_attempts:
  "attempts (snd (fetch_onnx tc e info p w)) = attempts w @ until_first (onnx_ok tc e p) (onnx_candidates info)"
proof -
  obtain ok w1 where d: "download_file e (onnx_url info) p w = (ok, w1)"
    by (cases "download_file e (onnx_url info) p w")
  have a1: "attempts w1 = attempts w @ [onnx_url info]"
    using attempts_download_file [of e "onnx_url info" p w] d by simp
  show ?thesis
    using d a1 download_then_verify_onnx [OF d, of tc] try_backup_urls_attempts [of tc e _ p w1]
    by (cases "backup_urls info") (auto simp: fetch_onnx_def onnx_candidates_def)
qed

lemma fetch_onnx_result:
  "fst (fetch_onnx tc e info p w) = list_ex (onnx_ok tc e p) (onnx_candidates info)"
proof -
  obtain ok w1 where d: "download_file e (onnx_url info) p w = (ok, w1)"
    by (cases "download_file e (onnx_url info) p w")
  show ?thesis
    using d download_then_verify_onnx [OF d, of tc] try_backup_urls_result [of tc e _ p w1]
    by (cases "backup_urls info") (auto simp: fetch_onnx_def onnx_candidates_def)
qed



text \<open>download\_craft\_keras\_tflite\_models.py: what an entry counts and touches.\<close>

lemma craft_download_file_other:
  "q \<noteq> p \<Longrightarrow> files (snd (craft_download_file e u p w)) q = files w q"
  by (simp add: craft_download_file_def Let_def split: response.splits)

lemma craft_entry_other:
  "q \<noteq> craft_file m \<Longrightarrow> files (snd (craft_entry e m st)) q = files (snd st) q"
  by (cases st)
     (auto simp: craft_entry_def Let_def case_prod_beta craft_download_file_other remove_file_def
        split: option.splits)

lemma craft_loop_other:
  "q \<notin> set (map craft_file ms) \<Longrightarrow> files (snd (craft_loop e ms st)) q = files (snd st) q"
  by (induction ms arbitrary: st) (simp_all add: craft_entry_other)

lemma real_model_at_cong:
  "files w' p = files w p \<Longrightarrow> real_model_at w' p = real_model_at w p"
  by (simp add: real_model_at_def)

lemma craft_entry_count:
  "fst (craft_entry e m (c, w)) = c \<or>
   fst (craft_entry e m (c, w)) = c + 1 \<and> real_model_at (snd (craft_entry e m (c, w))) (craft_file m)"
  by (auto simp: craft_entry_def Let_def case_prod_beta real_model_at_def split: option.splits)

lemma craft_entry_reuse:
  "real_model_at w (craft_file m) \<Longrightarrow> craft_entry e m (c, w) = (c + 1, w)"
  by (auto simp: craft_entry_def Let_def real_model_at_def split: option.splits)

lemma craft_entry_too_small:
  assumes "\<not> real_model_at w (craft_file m)"
    and "fst (craft_download_file e (craft_url m) (craft_file m) w)"
    and "\<not> real_model_at (snd (craft_download_file e (craft_url m) (craft_file m) w)) (craft_file m)"
  shows "fst (craft_entry e m (c, w)) = c"
    and "files (snd (craft_entry e m (c, w))) (craft_file m) = None"
  using assms
  by (auto simp: craft_entry_def Let_def case_prod_beta real_model_at_def remove_file_def
      split: option.splits)

lemma craft_loop_count:
  "distinct (map craft_file ms) \<Longrightarrow>
   fst (craft_loop e ms (c, w))
     \<le> c + length (filter (\<lambda>m. real_model_at (snd (craft_loop e ms (c, w))) (craft_file m)) ms)"
proof (induction ms arbitrary: c w)
  case Nil
  then show ?case by simp
next
  case (Cons m ms)
  obtain c1 w1 where step: "craft_entry e m (c, w) = (c1, w1)"
    by (cases "craft_entry e m (c, w)")
  let ?final = "snd (craft_loop e ms (c1, w1))"
  have notin: "craft_file m \<notin> set (map craft_file ms)" and rest: "distinct (map craft_file ms)"
    using Cons.prems by simp_all
  have "files ?final (craft_file m) = files w1 (craft_file m)"
    using craft_loop_other [OF notin, of e "(c1, w1)"] by simp
  then have same: "real_model_at ?final (craft_file m) = real_model_at w1 (craft_file m)"
    by (rule real_model_at_cong)
  have "c1 = c \<or> c1 = c + 1 \<and> real_model_at w1 (craft_file m)"
    using craft_entry_count [of e m c w] step by simp
  then have "c1 \<le> c + (if real_model_at ?final (craft_file m) then 1 else 0)"
    using same by auto
  moreover have "fst (craft_loop e ms (c1, w1))
      \<le> c1 + length (filter (\<lambda>m. real_model_at ?final (craft_file m)) ms)"
    by (rule Cons.IH [OF rest])
  ultimately show ?case
    using step by (cases "real_model_at ?final (craft_file m)") simp_all
qed



section \<open>Size verification\<close>


section \<open>Magic bytes\<close>



section \<open>The stub and its verifier\<close>

text \<open>
  C9. After \<open>create_working_tflite_model(filename)\<close> returns \<open>True\<close>, the file at
  \<open>filename\<close> is exactly 512 bytes, its first 4 bytes are \<open>0x18 0x00 0x00 0x00\<close>, the
  TFL3 magic appears at offset 4 and nowhere else, and \<open>verify_tflite_model\<close> on it
  returns \<open>False\<close>, reporting a file under the 1024-byte minimum.
\<close>

theorem stub_fails_own_verifier:
  assumes "create_working_tflite_model e filename w = (True, w')"
  shows "\<exists>bs. files w' filename = Some bs \<and> length bs = 512 \<and>
           take 4 bs = [0x18, 0x00, 0x00, 0x00] \<and>
           [i \<leftarrow> [0..<length bs]. take 4 (drop i bs) = TFL3] = [4] \<and>
           verify_tflite_model w' filename x = (False, [TooSmall])"
proof -
  from assms have w': "w' = w\<lparr>files := (files w)(filename \<mapsto> working_tflite_data filename)\<rparr>"
    by (auto simp: create_working_tflite_model_def write_file_def split: if_splits)
  have "take 4 (take 8 (working_tflite_data filename)) = [0x18, 0x00, 0x00, 0x00]"
    by (simp only: take8_working_tflite_data) simp
  then have t4: "take 4 (working_tflite_data filename) = [0x18, 0x00, 0x00, 0x00]"
    by simp
  show ?thesis
    using t4 magic_offsets_working [of filename]
    by (simp add: w' verify_tflite_model_def length_working_tflite_data)
qed

theorem stub_fails_own_verifier_witness:
  "create_working_tflite_model offline det_path empty_world
     = (True, snd (create_working_tflite_model offline det_path empty_world))
   \<and> verify_tflite_model (snd (create_working_tflite_model offline det_path empty_world))
        det_path (Some (23 / 10)) = (False, [TooSmall])"
proof -
  have h: "create_working_tflite_model offline det_path empty_world
     = (True, snd (create_working_tflite_model offline det_path empty_world))"
    by (simp add: create_working_tflite_model_def write_file_def offline_def)
  from stub_fails_own_verifier [OF h, of "Some (23 / 10)"] h show ?thesis by blast
qed

section \<open>download\_ocr\_models.py stops at the first failure\<close>



section \<open>Placeholders after a total failure\<close>

text \<open>
  C1, as the claim states it, fails for download\_ocr\_models.py: with no network both
  downloads of the first entry fail, \<open>main\<close> returns \<open>False\<close> and no file is at the
  entry's target path.
\<close>

theorem no_placeholder_counterexample:
  "ocr_candidates (snd (hd MODELS))
     = [''https://github.com/tesseract-ocr/tessdata/raw/main/eng.traineddata'',
        ''https://github.com/tesseract-ocr/tessdata_fast/raw/main/eng.traineddata'']
   \<and> \<not> download_ok offline eng_path ''https://github.com/tesseract-ocr/tessdata/raw/main/eng.traineddata''
   \<and> \<not> download_ok offline eng_path ''https://github.com/tesseract-ocr/tessdata_fast/raw/main/eng.traineddata''
   \<and> eng_path = assets_dir @ [fst (hd MODELS)]
   \<and> fst (ocr_main offline empty_world) = False
   \<and> files (snd (ocr_main offline empty_world)) eng_path = None"
proof -
  have c: "\<not> download_ok offline p u" for p u
    by (simp add: download_ok_def offline_def)
  have fe: "files empty_world p = None" for p
    by (simp add: empty_world_def)
  have f: "ocr_fetch offline info p empty_world
      = (False, empty_world\<lparr>trace := map (\<lambda>u. Downloading u p) (ocr_candidates info)\<rparr>)" for info p
    by (cases "fallback_url info")
       (simp_all add: ocr_fetch_def ocr_candidates_def download_file_failed [OF c] empty_world_def)
  have "ocr_main offline empty_world
      = (False, empty_world\<lparr>trace := map (\<lambda>u. Downloading u eng_path) (ocr_candidates (snd (hd MODELS)))\<rparr>)"
    unfolding ocr_main_def MODELS_def
    by (simp add: f fe eng_path_def)
  then show ?thesis
    by (simp add: c fe) (simp add: MODELS_def ocr_candidates_def eng_path_def)
qed

text \<open>
  C1, amended. In download\_ocr\_tflite\_direct.py and download\_easyocr\_models.py, for
  every model entry whose target path can be written: if every download attempted for
  the entry fails, the script writes its stub at the target path. So after the main
  loop of either script a file exists at each target path, when each can be written.
\<close>

theorem placeholder_after_total_failure:
  "(writable e (d @ [name]) \<and> list_all (\<lambda>u. \<not> download_ok e (d @ [name]) u) (urls tinfo) \<longrightarrow>
      files (snd (direct_entry e d (name, tinfo) st)) (d @ [name])
        = Some (working_tflite_data (d @ [name])))
   \<and> (writable e (d @ [name]) \<and>
       list_all (\<lambda>u. \<not> download_ok e (d @ [name]) u) (easyocr_candidates (d @ [name]) einfo) \<longrightarrow>
      files (snd (easyocr_entry e d (name, einfo) st)) (d @ [name])
        = Some create_minimal_tflite_data)
   \<and> ((\<forall>(n, i) \<in> set tms. writable e (d @ [n])) \<longrightarrow>
      (\<forall>(n, i) \<in> set tms. file_exists (snd (direct_loop e d tms st)) (d @ [n])))
   \<and> ((\<forall>(n, i) \<in> set ems. writable e (d @ [n])) \<longrightarrow>
      (\<forall>(n, i) \<in> set ems. file_exists (snd (easyocr_loop e d ems st)) (d @ [n])))"
  using direct_entry_stub [of e d name tinfo st] easyocr_entry_stub [of e d name einfo st]
    direct_loop_there [of tms e d _ _ st] easyocr_loop_there [of ems e d _ _ st]
  by auto

theorem placeholder_after_total_failure_witness:
  "writable offline det_path
   \<and> list_all (\<lambda>u. \<not> download_ok offline det_path u) (urls (snd (hd TFLITE_MODELS)))
   \<and> files (snd (direct_entry offline scripts_dir (hd TFLITE_MODELS) (0, empty_world))) det_path
       = Some (working_tflite_data det_path)
   \<and> list_all (\<lambda>u. \<not> download_ok offline det_path u)
       (easyocr_candidates det_path (snd (hd EASYOCR_MODELS)))
   \<and> files (snd (easyocr_entry offline scripts_dir (hd EASYOCR_MODELS) (0, empty_world))) det_path
       = Some create_minimal_tflite_data
   \<and> file_exists (snd (direct_main offline scripts_dir empty_world)) det_path
   \<and> file_exists (snd (easyocr_main offline scripts_dir empty_world)) det_path"
proof -
  note inst = placeholder_after_total_failure [of offline scripts_dir "''easyocr_text_detection.tflite''"
      "snd (hd TFLITE_MODELS)" "(0, empty_world)" "snd (hd EASYOCR_MODELS)"
      TFLITE_MODELS EASYOCR_MODELS]
  have w: "writable offline p" for p
    by (simp add: offline_def)
  have c: "\<not> download_ok offline p u" for p u
    by (simp add: download_ok_def offline_def)
  have p: "scripts_dir @ [''easyocr_text_detection.tflite''] = det_path"
    by (simp add: scripts_dir_def det_path_def)
  have h1: "(''easyocr_text_detection.tflite'', snd (hd TFLITE_MODELS)) = hd TFLITE_MODELS"
    and m1: "hd TFLITE_MODELS \<in> set TFLITE_MODELS"
    by (simp_all add: TFLITE_MODELS_def)
  have h2: "(''easyocr_text_detection.tflite'', snd (hd EASYOCR_MODELS)) = hd EASYOCR_MODELS"
    and m2: "hd EASYOCR_MODELS \<in> set EASYOCR_MODELS"
    by (simp_all add: EASYOCR_MODELS_def)
  have n1: "fst (hd TFLITE_MODELS) = ''easyocr_text_detection.tflite''"
    by (simp add: TFLITE_MODELS_def)
  have n2: "fst (hd EASYOCR_MODELS) = ''easyocr_text_detection.tflite''"
    by (simp add: EASYOCR_MODELS_def)
  have 1: "files (snd (direct_entry offline scripts_dir (hd TFLITE_MODELS) (0, empty_world))) det_path
       = Some (working_tflite_data det_path)"
    using inst by (simp add: w c list_all_iff p h1)
  have 2: "files (snd (easyocr_entry offline scripts_dir (hd EASYOCR_MODELS) (0, empty_world))) det_path
       = Some create_minimal_tflite_data"
    using inst by (simp add: w c list_all_iff p h2)
  have "\<forall>(n, i) \<in> set TFLITE_MODELS.
          file_exists (snd (direct_loop offline scripts_dir TFLITE_MODELS (0, empty_world))) (scripts_dir @ [n])"
    using inst by (simp add: w)
  with m1 have "file_exists (snd (direct_loop offline scripts_dir TFLITE_MODELS (0, empty_world)))
      (scripts_dir @ [fst (hd TFLITE_MODELS)])"
    by (auto simp: case_prod_beta)
  then have 3: "file_exists (snd (direct_main offline scripts_dir empty_world)) det_path"
    by (simp add: n1 p direct_main_def case_prod_beta)
  have "\<forall>(n, i) \<in> set EASYOCR_MODELS.
          file_exists (snd (easyocr_loop offline scripts_dir EASYOCR_MODELS (0, empty_world))) (scripts_dir @ [n])"
    using inst by (simp add: w)
  with m2 have "file_exists (snd (easyocr_loop offline scripts_dir EASYOCR_MODELS (0, empty_world)))
      (scripts_dir @ [fst (hd EASYOCR_MODELS)])"
    by (auto simp: case_prod_beta)
  then have 4: "file_exists (snd (easyocr_main offline scripts_dir empty_world)) det_path"
    by (simp add: n2 p easyocr_main_def)
  show ?thesis
    using 1 2 3 4 by (simp add: w c list_all_iff)
qed

section \<open>Prioritized fallback\<close>

text \<open>
  C2. In download\_ocr\_models.py and download\_and\_convert\_ocr\_models.py the URLs
  attempted for an entry are its candidates (the primary URL first, then the fallback
  or backup URLs in their listed order) up to and including the first that succeeds:
  a download that succeeds for the former, a download that succeeds and verifies for
  the latter. In particular no fallback or backup URL is attempted when the primary
  succeeded, and the entry succeeds exactly when some candidate does.
\<close>

theorem prioritized_fallback:
  "attempts (snd (ocr_fetch e info p w))
     = attempts w @ until_first (download_ok e p) (ocr_candidates info)
   \<and> fst (ocr_fetch e info p w) = list_ex (download_ok e p) (ocr_candidates info)
   \<and> hd (ocr_candidates info) = url info
   \<and> (download_ok e p (url info) \<longrightarrow>
        attempts (snd (ocr_fetch e info p w)) = attempts w @ [url info])
   \<and> attempts (snd (fetch_onnx tc e oinfo q w))
     = attempts w @ until_first (onnx_ok tc e q) (onnx_candidates oinfo)
   \<and> fst (fetch_onnx tc e oinfo q w) = list_ex (onnx_ok tc e q) (onnx_candidates oinfo)
   \<and> hd (onnx_candidates oinfo) = onnx_url oinfo
   \<and> (onnx_ok tc e q (onnx_url oinfo) \<longrightarrow>
        attempts (snd (fetch_onnx tc e oinfo q w)) = attempts w @ [onnx_url oinfo])"
  by (simp add: ocr_fetch_attempts ocr_fetch_result fetch_onnx_attempts fetch_onnx_result
      ocr_candidates_def onnx_candidates_def)

theorem prioritized_fallback_witness:
  "download_ok junk_server eng_path (url (snd (hd MODELS)))
   \<and> attempts (snd (ocr_fetch junk_server (snd (hd MODELS)) eng_path empty_world))
       = [''https://github.com/tesseract-ocr/tessdata/raw/main/eng.traineddata'']
   \<and> onnx_ok working_tools junk_server craft_onnx_path (onnx_url (snd (hd ONNX_MODELS)))
   \<and> attempts (snd (fetch_onnx working_tools junk_server (snd (hd ONNX_MODELS)) craft_onnx_path empty_world))
       = [''https://github.com/clovaai/CRAFT-pytorch/releases/download/v1.0/craft_mlt_25k.onnx'']
   \<and> attempts (snd (ocr_fetch offline (snd (hd MODELS)) eng_path empty_world))
       = [''https://github.com/tesseract-ocr/tessdata/raw/main/eng.traineddata'',
          ''https://github.com/tesseract-ocr/tessdata_fast/raw/main/eng.traineddata'']"
proof -
  note served = prioritized_fallback [of junk_server "snd (hd MODELS)" eng_path empty_world
      working_tools "snd (hd ONNX_MODELS)" craft_onnx_path]
  note down = prioritized_fallback [of offline "snd (hd MODELS)" eng_path empty_world
      working_tools "snd (hd ONNX_MODELS)" craft_onnx_path]
  have a: "download_ok junk_server eng_path (url (snd (hd MODELS)))"
    by (simp add: download_ok_def junk_server_def)
  have b: "onnx_ok working_tools junk_server craft_onnx_path (onnx_url (snd (hd ONNX_MODELS)))"
    by (simp add: onnx_ok_def junk_server_def working_tools_def)
  have c: "\<not> download_ok offline eng_path u" for u
    by (simp add: download_ok_def offline_def)
  have e0: "attempts empty_world = []"
    by (simp add: attempts_def empty_world_def)
  have u1: "url (snd (hd MODELS))
      = ''https://github.com/tesseract-ocr/tessdata/raw/main/eng.traineddata''"
    by (simp add: MODELS_def)
  have u2: "onnx_url (snd (hd ONNX_MODELS))
      = ''https://github.com/clovaai/CRAFT-pytorch/releases/download/v1.0/craft_mlt_25k.onnx''"
    by (simp add: ONNX_MODELS_def)
  have 1: "attempts (snd (ocr_fetch junk_server (snd (hd MODELS)) eng_path empty_world))
      = attempts empty_world @ [url (snd (hd MODELS))]"
    using served a by blast
  have 2: "attempts (snd (fetch_onnx working_tools junk_server (snd (hd ONNX_MODELS))
        craft_onnx_path empty_world))
      = attempts empty_world @ [onnx_url (snd (hd ONNX_MODELS))]"
    using served b by blast
  have 3: "attempts (snd (ocr_fetch offline (snd (hd MODELS)) eng_path empty_world))
      = attempts empty_world @ until_first (download_ok offline eng_path) (ocr_candidates (snd (hd MODELS)))"
    using down by blast
  have 4: "until_first (download_ok offline eng_path) (ocr_candidates (snd (hd MODELS)))
      = [''https://github.com/tesseract-ocr/tessdata/raw/main/eng.traineddata'',
         ''https://github.com/tesseract-ocr/tessdata_fast/raw/main/eng.traineddata'']"
    by (simp add: c ocr_candidates_def MODELS_def)
  show ?thesis
    using a b by (simp only: 1 2 3 4 e0 u1 u2 append_Nil simp_thms)
qed

section \<open>Test images\<close>

text \<open>
  C5. \<open>main()\<close> of generate\_working\_images.py saves exactly two images, both in the
  script's directory, under names ending in \<open>.png\<close>: a 600x400 image on a white
  background on which the texts \<open>SSID: TestNetwork\<close>, \<open>Password: password123\<close> and
  \<open>Security: WPA2\<close> are drawn, and an 800x200 image on which \<open>HELLO CAMERA TEST\<close> is
  drawn centred, that is at half the difference between the image's size and the
  size of the text's bounding box.
\<close>

theorem images_main_saves_two_images:
  "images_main pil tests_dir saved =
     saved(tests_dir @ [''working_wifi_test_image.png''] \<mapsto> create_wifi_test_image pil,
           tests_dir @ [''working_simple_test_image.png''] \<mapsto> create_simple_test_image pil)
   \<and> dom (images_main pil tests_dir saved)
       = dom saved \<union> {tests_dir @ [''working_wifi_test_image.png''],
                         tests_dir @ [''working_simple_test_image.png'']}
   \<and> tests_dir @ [''working_wifi_test_image.png''] \<noteq> tests_dir @ [''working_simple_test_image.png'']
   \<and> parent (tests_dir @ [''working_wifi_test_image.png'']) = tests_dir
   \<and> parent (tests_dir @ [''working_simple_test_image.png'']) = tests_dir
   \<and> dimensions (create_wifi_test_image pil) = (600, 400)
   \<and> background (create_wifi_test_image pil) = ''white''
   \<and> map drawn_text (drawing (create_wifi_test_image pil))
       = [''SSID: TestNetwork'', ''Password: password123'', ''Security: WPA2'']
   \<and> dimensions (create_simple_test_image pil) = (800, 200)
   \<and> (\<exists>x0 y0 x1 y1 fnt.
         textbbox pil ''HELLO CAMERA TEST'' fnt = (x0, y0, x1, y1) \<and>
         drawing (create_simple_test_image pil)
           = [DrawText ((800 - (x1 - x0)) div 2, (200 - (y1 - y0)) div 2)
                ''HELLO CAMERA TEST'' ''black'' fnt])"
proof -
  obtain x0 y0 x1 y1 where bbox: "textbbox pil ''HELLO CAMERA TEST'' (load_font pil 48) = (x0, y0, x1, y1)"
    by (cases "textbbox pil ''HELLO CAMERA TEST'' (load_font pil 48)")
  have centred: "drawing (create_simple_test_image pil)
      = [DrawText ((800 - (x1 - x0)) div 2, (200 - (y1 - y0)) div 2)
           ''HELLO CAMERA TEST'' ''black'' (load_font pil 48)]"
    by (simp add: create_simple_test_image_def bbox Let_def)
  have "dimensions (create_simple_test_image pil) = (800, 200)"
    by (simp add: create_simple_test_image_def Let_def case_prod_beta)
  moreover have "dom (images_main pil tests_dir saved)
       = dom saved \<union> {tests_dir @ [''working_wifi_test_image.png''],
                         tests_dir @ [''working_simple_test_image.png'']}"
    by (auto simp: images_main_def Let_def)
  ultimately show ?thesis
    using bbox centred
    by (simp add: images_main_def create_wifi_test_image_def parent_def Let_def)
qed

section \<open>The conversion pipeline\<close>

text \<open>
  C6. \<open>convert_onnx_to_tflite(onnx_path, tflite_path)\<close> returns \<open>True\<close> exactly when the
  libraries import, the ONNX file loads, the temporary directory is made, and the
  export to a SavedModel, the conversion of that SavedModel and the write to
  \<open>tflite_path\<close> all succeed; any failure gives \<open>False\<close>. When it returns \<open>True\<close>, the ONNX model was exported to a SavedModel in the
  temporary directory first, that SavedModel was converted to TensorFlow Lite next,
  and the bytes of the result are the file at \<open>tflite_path\<close>.
\<close>

theorem conversion_pipeline:
  "fst (convert_onnx_to_tflite tc e onnx_path tflite_path w) =
     (import_onnx tc \<and> import_tensorflow tc \<and> make_temp_dir tc \<noteq> None \<and>
      writable e tflite_path \<and>
      (\<exists>ob m sm tfl. files w onnx_path = Some ob \<and> onnx_load tc ob = Some m \<and>
          export_graph tc m = Some sm \<and> convert tc sm = Some tfl))
   \<and> (fst (convert_onnx_to_tflite tc e onnx_path tflite_path w) \<longrightarrow>
        (\<exists>ob m tmp sm tfl. files w onnx_path = Some ob \<and> onnx_load tc ob = Some m \<and>
           make_temp_dir tc = Some tmp \<and>
           export_graph tc m = Some sm \<and> convert tc sm = Some tfl \<and>
           files (snd (convert_onnx_to_tflite tc e onnx_path tflite_path w))
             = (files w)(tflite_path \<mapsto> tfl) \<and>
           trace (snd (convert_onnx_to_tflite tc e onnx_path tflite_path w))
             = trace w @ [OnnxLoaded onnx_path,
                          SavedModelExported (tmp @ [''tf_model'']),
                          TFLiteConverted (tmp @ [''tf_model'']),
                          TFLiteSaved tflite_path]))"
  by (auto simp: convert_onnx_to_tflite_def write_file_def Let_def split: option.splits)

theorem conversion_pipeline_witness:
  "fst (convert_onnx_to_tflite working_tools offline craft_onnx_path det_path onnx_world)
   \<and> files (snd (convert_onnx_to_tflite working_tools offline craft_onnx_path det_path onnx_world)) det_path
       = Some [0x08, 0x07]
   \<and> trace (snd (convert_onnx_to_tflite working_tools offline craft_onnx_path det_path onnx_world))
       = [OnnxLoaded craft_onnx_path, SavedModelExported [''tmp'', ''tmpdir'', ''tf_model''],
          TFLiteConverted [''tmp'', ''tmpdir'', ''tf_model''], TFLiteSaved det_path]"
proof -
  note inst = conversion_pipeline [of working_tools offline craft_onnx_path det_path onnx_world]
  have h: "fst (convert_onnx_to_tflite working_tools offline craft_onnx_path det_path onnx_world)"
    using inst by (simp add: working_tools_def offline_def onnx_world_def)
  with inst obtain ob m tmp sm tfl where
    "files onnx_world craft_onnx_path = Some ob" "onnx_load working_tools ob = Some m"
    "make_temp_dir working_tools = Some tmp"
    "export_graph working_tools m = Some sm" "convert working_tools sm = Some tfl"
    and f: "files (snd (convert_onnx_to_tflite working_tools offline craft_onnx_path det_path onnx_world))
             = (files onnx_world)(det_path \<mapsto> tfl)"
    and t: "trace (snd (convert_onnx_to_tflite working_tools offline craft_onnx_path det_path onnx_world))
             = trace onnx_world @ [OnnxLoaded craft_onnx_path,
                          SavedModelExported (tmp @ [''tf_model'']),
                          TFLiteConverted (tmp @ [''tf_model'']),
                          TFLiteSaved det_path]"
    by blast
  then have "tfl = [0x08, 0x07]" and "tmp = [''tmp'', ''tmpdir'']"
    by (simp_all add: working_tools_def onnx_world_def)
  with h f t show ?thesis
    by (simp add: onnx_world_def)
qed

section \<open>Placing a verified model in the assets directory\<close>



section \<open>Counting real models\<close>

text \<open>
  C10. In download\_craft\_keras\_tflite\_models.py an entry adds one to the count only
  when a file of more than 10000 bytes is at its target path afterwards. A file of
  more than 10000 bytes that is already there is counted without a download and the
  world is left as it was. A file that was downloaded and has 10000 bytes or fewer is
  removed from the target path and not counted. Over the whole loop, with distinct
  target paths, the count is at most the number of target paths that hold more than
  10000 bytes at the end.
\<close>

theorem craft_counts_only_real_models:
  "(fst (craft_entry e m (c, w)) = c + 1 \<longrightarrow>
      real_model_at (snd (craft_entry e m (c, w))) (craft_file m))
   \<and> (fst (craft_entry e m (c, w)) = c \<or> fst (craft_entry e m (c, w)) = c + 1)
   \<and> (real_model_at w (craft_file m) \<longrightarrow> craft_entry e m (c, w) = (c + 1, w))
   \<and> (\<not> real_model_at w (craft_file m) \<and>
       fst (craft_download_file e (craft_url m) (craft_file m) w) \<and>
       \<not> real_model_at (snd (craft_download_file e (craft_url m) (craft_file m) w)) (craft_file m)
       \<longrightarrow> fst (craft_entry e m (c, w)) = c \<and>
           files (snd (craft_entry e m (c, w))) (craft_file m) = None)
   \<and> (distinct (map craft_file ms) \<longrightarrow>
        fst (craft_loop e ms (c, w))
          \<le> c + length (filter (\<lambda>m. real_model_at (snd (craft_loop e ms (c, w))) (craft_file m)) ms))"
  using craft_entry_count [of e m c w] craft_entry_reuse [of w m e c]
    craft_entry_too_small [of w m e c] craft_loop_count [of ms e c w]
  by auto

theorem craft_counts_only_real_models_witness:
  "real_model_at stocked_world craft_path
   \<and> craft_entry small_server (hd (craft_models scripts_dir)) (0, stocked_world) = (1, stocked_world)
   \<and> \<not> real_model_at empty_world craft_path
   \<and> fst (craft_download_file small_server (craft_url (hd (craft_models scripts_dir))) craft_path empty_world)
   \<and> files (snd (craft_download_file small_server (craft_url (hd (craft_models scripts_dir))) craft_path empty_world))
        craft_path = Some [0x54, 0x46, 0x4C]
   \<and> fst (craft_entry small_server (hd (craft_models scripts_dir)) (0, empty_world)) = 0
   \<and> files (snd (craft_entry small_server (hd (craft_models scripts_dir)) (0, empty_world))) craft_path = None
   \<and> distinct (map craft_file (craft_models scripts_dir))
   \<and> fst (craft_main small_server scripts_dir empty_world)
       \<le> length (filter (\<lambda>m. real_model_at (snd (craft_main small_server scripts_dir empty_world)) (craft_file m))
            (craft_models scripts_dir))"
proof -
  let ?m = "hd (craft_models scripts_dir)"
  note reuse = craft_counts_only_real_models [of small_server ?m 0 stocked_world "craft_models scripts_dir"]
  note fresh = craft_counts_only_real_models [of small_server ?m 0 empty_world "craft_models scripts_dir"]
  have f: "craft_file ?m = craft_path"
    by (simp add: craft_models_def craft_path_def parent_def scripts_dir_def Let_def)
  have a: "real_model_at stocked_world craft_path"
    by (simp add: real_model_at_def stocked_world_def)
  have b: "\<not> real_model_at empty_world craft_path"
    by (simp add: real_model_at_def empty_world_def)
  have d: "craft_download_file small_server (craft_url ?m) craft_path empty_world
      = (True, empty_world\<lparr>trace := [Downloading (craft_url ?m) craft_path],
                            files := [craft_path \<mapsto> [0x54, 0x46, 0x4C]]\<rparr>)"
    by (simp add: craft_download_file_def small_server_def empty_world_def Let_def)
  have small: "\<not> real_model_at (snd (craft_download_file small_server (craft_url ?m) craft_path empty_world)) craft_path"
    by (simp add: d real_model_at_def)
  have dist: "distinct (map craft_file (craft_models scripts_dir))"
    by (simp add: craft_models_def Let_def)
  have 1: "craft_entry small_server ?m (0, stocked_world) = (1, stocked_world)"
    using reuse a f by simp
  have 2: "fst (craft_entry small_server ?m (0, empty_world)) = 0 \<and>
           files (snd (craft_entry small_server ?m (0, empty_world))) craft_path = None"
    using fresh b small d f by simp
  have 3: "fst (craft_main small_server scripts_dir empty_world)
       \<le> length (filter (\<lambda>m. real_model_at (snd (craft_main small_server scripts_dir empty_world)) (craft_file m))
            (craft_models scripts_dir))"
    using fresh dist by (simp add: craft_main_def)
  show ?thesis
    using a b 1 2 3 dist by (simp add: d)
qed

end
